theory Spec2Isabelle
  imports Main "HOL-Library.Word"
begin

section \<open>Values of the Go runtime and of the client libraries\<close>

text \<open>
  The package \<^verbatim>\<open>squirrel_ctx.go\<close> adapts two database client families to three
  capability interfaces. It keeps no state of its own: every effect is an effect of the
  wrapped client. A method of a client (or of a cursor or row the client hands out) is
  therefore a function from the client's state \<open>'s\<close> to a result and a new state, and an
  interface value is the record of its methods. The arguments of a query
  (\<^verbatim>\<open>...interface{}\<close>) are values of an arbitrary type \<open>'v\<close>.

  A Go \<^verbatim>\<open>error\<close> is \<open>error option\<close> (\<open>None\<close> is \<^verbatim>\<open>nil\<close>); the errors this file makes
  itself come from \<^verbatim>\<open>errors.New\<close> and are identified by their message. A nil-able
  interface or pointer result is an \<open>option\<close>, a nil-able slice is a \<open>list option\<close>
  (\<open>None\<close> is the nil slice, \<open>Some []\<close> the empty one).
\<close>

datatype Context = Background | Derived nat

datatype error = errorString string

definition errors_New :: "string \<Rightarrow> error" where
  "errors_New msg = errorString msg"

type_synonym int64 = "64 word"

text \<open>Calling a method through a nil embedded interface or pointer panics.\<close>

datatype panic = nil_dereference

text \<open>\<^verbatim>\<open>NoContextSupport\<close>, line 13.\<close>

definition NoContextSupport :: error where
  "NoContextSupport = errors_New ''DB does not support Context''"

section \<open>The alternate family's cursor\<close>

text \<open>
  \<^verbatim>\<open>pgconn.FieldDescription\<close>: the source reads its \<^verbatim>\<open>Name\<close> only; the record is
  extensible, so the other fields of the library's struct are its \<open>more\<close> part.
\<close>

record FieldDescription =
  Name :: string

text \<open>
  \<^verbatim>\<open>pgx.Rows\<close>, the native cursor of the alternate family, as far as the wrapper calls it.
  \<^verbatim>\<open>Scan\<close> gets the present contents of the destinations and returns the new ones.
\<close>

record ('v, 's) pgx_Rows =
  pgx_Close :: "'s \<Rightarrow> 's"
  pgx_Err :: "'s \<Rightarrow> error option \<times> 's"
  pgx_Next :: "'s \<Rightarrow> bool \<times> 's"
  pgx_Scan :: "'v list \<Rightarrow> 's \<Rightarrow> (error option \<times> 'v list) \<times> 's"
  pgx_FieldDescriptions :: "'s \<Rightarrow> FieldDescription list option \<times> 's"

text \<open>\<^verbatim>\<open>type PgxRowsWrapper struct { pgx.Rows }\<close>, lines 182-184.\<close>

datatype ('v, 's) PgxRowsWrapper = PgxRowsWrapper "('v, 's) pgx_Rows option"

text \<open>
  The loop of \<^verbatim>\<open>Columns\<close>, lines 210-212:
  \<^verbatim>\<open>for i, f := range fields { cols[i] = string(f.Name) }\<close>,
  started at index \<open>0\<close> on \<^verbatim>\<open>cols := make([]string, len(fields))\<close>.
\<close>

fun Columns_loop :: "nat \<Rightarrow> 'a FieldDescription_scheme list \<Rightarrow> string list \<Rightarrow> string list" where
  "Columns_loop i [] cols = cols"
| "Columns_loop i (f # fds) cols = Columns_loop (Suc i) fds (cols[i := Name f])"

text \<open>
  \<^verbatim>\<open>PgxRowsWrapper.Columns\<close>, lines 202-215. \<^verbatim>\<open>make\<close> gives a non-nil slice of
  \<^verbatim>\<open>len(fields)\<close> empty strings, also when \<^verbatim>\<open>fields\<close> is empty.
\<close>

fun PgxRowsWrapper_Columns ::
  "('v, 's) PgxRowsWrapper \<Rightarrow> 's \<Rightarrow> panic + ((string list option \<times> error option) \<times> 's)" where
  "PgxRowsWrapper_Columns (PgxRowsWrapper None) \<sigma> = Inl nil_dereference"
| "PgxRowsWrapper_Columns (PgxRowsWrapper (Some rows)) \<sigma> =
     (case pgx_FieldDescriptions rows \<sigma> of
        (None, \<sigma>') \<Rightarrow> Inr ((None, Some (errors_New ''no field descriptions'')), \<sigma>')
      | (Some fds, \<sigma>') \<Rightarrow>
          Inr ((Some (Columns_loop 0 fds (replicate (length fds) [])), None), \<sigma>'))"

text \<open>The other methods of the wrapper, lines 186-200, delegate.\<close>

fun PgxRowsWrapper_Close :: "('v, 's) PgxRowsWrapper \<Rightarrow> 's \<Rightarrow> panic + 's" where
  "PgxRowsWrapper_Close (PgxRowsWrapper None) \<sigma> = Inl nil_dereference"
| "PgxRowsWrapper_Close (PgxRowsWrapper (Some rows)) \<sigma> = Inr (pgx_Close rows \<sigma>)"

fun PgxRowsWrapper_Err :: "('v, 's) PgxRowsWrapper \<Rightarrow> 's \<Rightarrow> panic + (error option \<times> 's)" where
  "PgxRowsWrapper_Err (PgxRowsWrapper None) \<sigma> = Inl nil_dereference"
| "PgxRowsWrapper_Err (PgxRowsWrapper (Some rows)) \<sigma> = Inr (pgx_Err rows \<sigma>)"

fun PgxRowsWrapper_Next :: "('v, 's) PgxRowsWrapper \<Rightarrow> 's \<Rightarrow> panic + (bool \<times> 's)" where
  "PgxRowsWrapper_Next (PgxRowsWrapper None) \<sigma> = Inl nil_dereference"
| "PgxRowsWrapper_Next (PgxRowsWrapper (Some rows)) \<sigma> = Inr (pgx_Next rows \<sigma>)"

fun PgxRowsWrapper_Scan ::
  "('v, 's) PgxRowsWrapper \<Rightarrow> 'v list \<Rightarrow> 's \<Rightarrow> panic + ((error option \<times> 'v list) \<times> 's)" where
  "PgxRowsWrapper_Scan (PgxRowsWrapper None) dest \<sigma> = Inl nil_dereference"
| "PgxRowsWrapper_Scan (PgxRowsWrapper (Some rows)) dest \<sigma> = Inr (pgx_Scan rows dest \<sigma>)"

section \<open>The standard family's cursor\<close>

text \<open>
  \<^verbatim>\<open>*sql.Rows\<close>, the native cursor of the standard family. Its \<^verbatim>\<open>Close\<close> returns an
  error, unlike that of \<^verbatim>\<open>pgx.Rows\<close>.
\<close>

record ('v, 's) sql_Rows =
  sql_Close :: "'s \<Rightarrow> error option \<times> 's"
  sql_Err :: "'s \<Rightarrow> error option \<times> 's"
  sql_Next :: "'s \<Rightarrow> bool \<times> 's"
  sql_Scan :: "'v list \<Rightarrow> 's \<Rightarrow> (error option \<times> 'v list) \<times> 's"
  sql_Columns :: "'s \<Rightarrow> (string list option \<times> error option) \<times> 's"

text \<open>\<^verbatim>\<open>type StdRowsWrapper struct { *sql.Rows }\<close>, lines 158-160.\<close>

datatype ('v, 's) StdRowsWrapper = StdRowsWrapper "('v, 's) sql_Rows option"

text \<open>
  \<^verbatim>\<open>StdRowsWrapper.Close\<close>, lines 162-164: \<^verbatim>\<open>_ = r.Rows.Close()\<close>. The method has no
  result; what is left of the call is the state after it.
\<close>

fun StdRowsWrapper_Close :: "('v, 's) StdRowsWrapper \<Rightarrow> 's \<Rightarrow> panic + 's" where
  "StdRowsWrapper_Close (StdRowsWrapper None) \<sigma> = Inl nil_dereference"
| "StdRowsWrapper_Close (StdRowsWrapper (Some rows)) \<sigma> =
     (case sql_Close rows \<sigma> of (_, \<sigma>') \<Rightarrow> Inr \<sigma>')"

fun StdRowsWrapper_Err :: "('v, 's) StdRowsWrapper \<Rightarrow> 's \<Rightarrow> panic + (error option \<times> 's)" where
  "StdRowsWrapper_Err (StdRowsWrapper None) \<sigma> = Inl nil_dereference"
| "StdRowsWrapper_Err (StdRowsWrapper (Some rows)) \<sigma> = Inr (sql_Err rows \<sigma>)"

fun StdRowsWrapper_Next :: "('v, 's) StdRowsWrapper \<Rightarrow> 's \<Rightarrow> panic + (bool \<times> 's)" where
  "StdRowsWrapper_Next (StdRowsWrapper None) \<sigma> = Inl nil_dereference"
| "StdRowsWrapper_Next (StdRowsWrapper (Some rows)) \<sigma> = Inr (sql_Next rows \<sigma>)"

fun StdRowsWrapper_Scan ::
  "('v, 's) StdRowsWrapper \<Rightarrow> 'v list \<Rightarrow> 's \<Rightarrow> panic + ((error option \<times> 'v list) \<times> 's)" where
  "StdRowsWrapper_Scan (StdRowsWrapper None) dest \<sigma> = Inl nil_dereference"
| "StdRowsWrapper_Scan (StdRowsWrapper (Some rows)) dest \<sigma> = Inr (sql_Scan rows dest \<sigma>)"

fun StdRowsWrapper_Columns ::
  "('v, 's) StdRowsWrapper \<Rightarrow> 's \<Rightarrow> panic + ((string list option \<times> error option) \<times> 's)" where
  "StdRowsWrapper_Columns (StdRowsWrapper None) \<sigma> = Inl nil_dereference"
| "StdRowsWrapper_Columns (StdRowsWrapper (Some rows)) \<sigma> = Inr (sql_Columns rows \<sigma>)"

section \<open>Statements, row scanners and execution outcomes\<close>

text \<open>
  Modelled from the spec: the interface \<^verbatim>\<open>Sqlizer\<close> is declared outside
  \<^verbatim>\<open>squirrel_ctx.go\<close>. The spec gives it one operation producing
  \<open>(queryText, arguments, error)\<close>, and calls the statement immutable: \<^verbatim>\<open>ToSql\<close> is a
  value of the statement.
\<close>

record 'v Sqlizer =
  ToSql :: "string \<times> 'v list \<times> error option"

text \<open>
  \<^verbatim>\<open>sql.Row\<close>, the native single row of the standard family, given by its \<^verbatim>\<open>Scan\<close>. The
  standard client hands out a pointer \<^verbatim>\<open>*sql.Row\<close>, which may be nil: an \<open>option\<close>.
\<close>

record ('v, 's) sql_Row =
  sql_Row_Scan :: "'v list \<Rightarrow> 's \<Rightarrow> (error option \<times> 'v list) \<times> 's"

text \<open>
  Modelled from the spec: the interface \<^verbatim>\<open>RowScanner\<close> and the struct \<^verbatim>\<open>Row\<close> are
  declared outside \<^verbatim>\<open>squirrel_ctx.go\<close>, which builds
  \<^verbatim>\<open>&Row{RowScanner: ..., err: err}\<close>. A \<^verbatim>\<open>RowScanner\<close> value is the nil interface, a
  native row of a client (given by its \<^verbatim>\<open>Scan\<close>), a \<^verbatim>\<open>*sql.Row\<close>, or a pointer to a
  \<^verbatim>\<open>Row\<close> holding a scanner and a deferred error. A \<^verbatim>\<open>*sql.Row\<close> converted to the
  interface is a non-nil interface value also when the pointer is nil
  (\<open>sql_Row_ptr None\<close>, which is not \<open>nil_RowScanner\<close>).
\<close>

datatype ('v, 's) RowScanner =
    nil_RowScanner
  | native_Row "'v list \<Rightarrow> 's \<Rightarrow> (error option \<times> 'v list) \<times> 's"
  | sql_Row_ptr "('v, 's) sql_Row option"
  | Row "('v, 's) RowScanner" "error option"

text \<open>
  Modelled from the spec: \<^verbatim>\<open>Scan\<close> of a \<^verbatim>\<open>Row\<close> is absent from the source. The spec
  says the scanner "defers \<^verbatim>\<open>buildErr\<close> to its first \<^verbatim>\<open>scan\<close> call" and is "either bound
  to a live cursor or carries a terminal error, resolved only when \<^verbatim>\<open>scan\<close> is invoked":
  a deferred error is returned, otherwise the scan is the embedded scanner's. \<^verbatim>\<open>Scan\<close>
  through the nil interface or a nil \<^verbatim>\<open>*sql.Row\<close> panics.
\<close>

fun RowScanner_Scan ::
  "('v, 's) RowScanner \<Rightarrow> 'v list \<Rightarrow> 's \<Rightarrow> panic + ((error option \<times> 'v list) \<times> 's)" where
  "RowScanner_Scan nil_RowScanner dest \<sigma> = Inl nil_dereference"
| "RowScanner_Scan (native_Row scan) dest \<sigma> = Inr (scan dest \<sigma>)"
| "RowScanner_Scan (sql_Row_ptr None) dest \<sigma> = Inl nil_dereference"
| "RowScanner_Scan (sql_Row_ptr (Some row)) dest \<sigma> = Inr (sql_Row_Scan row dest \<sigma>)"
| "RowScanner_Scan (Row rs err) dest \<sigma> =
     (if err \<noteq> None then Inr ((err, dest), \<sigma>) else RowScanner_Scan rs dest \<sigma>)"

text \<open>
  \<^verbatim>\<open>pgconn.CommandTag\<close> is a struct around the tag text the server sent; its zero value
  has the empty text. Its method \<^verbatim>\<open>RowsAffected\<close> belongs to the library, so the
  functions below take it as the parameter \<open>native_RowsAffected\<close>.
\<close>

datatype CommandTag = CommandTag string

definition CommandTag_zero :: CommandTag where
  "CommandTag_zero = CommandTag []"

text \<open>\<^verbatim>\<open>type commandTagWrapper struct { pgconn.CommandTag }\<close>, lines 138-140.\<close>

datatype commandTagWrapper = commandTagWrapper CommandTag

text \<open>\<^verbatim>\<open>commandTagWrapper.RowsAffected\<close>, lines 142-144.\<close>

fun commandTagWrapper_RowsAffected ::
  "(CommandTag \<Rightarrow> int64) \<Rightarrow> commandTagWrapper \<Rightarrow> int64 \<times> error option" where
  "commandTagWrapper_RowsAffected native_RowsAffected (commandTagWrapper ct) =
     (native_RowsAffected ct, None)"

text \<open>\<^verbatim>\<open>commandTagWrapper.LastInsertId\<close>, lines 146-148.\<close>

fun commandTagWrapper_LastInsertId :: "commandTagWrapper \<Rightarrow> int64 \<times> error option" where
  "commandTagWrapper_LastInsertId (commandTagWrapper ct) =
     (0, Some (errors_New ''LastInsertId is not supported by pgx''))"

section \<open>Capability interfaces\<close>

text \<open>
  Lines 15-42. An interface with one method is the type of that method: \<open>db ctx query args\<close>
  is \<^verbatim>\<open>db.ExecContext(ctx, query, args...)\<close>. \<open>'res\<close> is the dynamic type of the
  \<^verbatim>\<open>sql.Result\<close> and \<open>'rows\<close> that of the \<^verbatim>\<open>Rows\<close> an implementation returns.
\<close>

type_synonym ('v, 's, 'res) ExecerContext =
  "Context \<Rightarrow> string \<Rightarrow> 'v list \<Rightarrow> 's \<Rightarrow> ('res option \<times> error option) \<times> 's"

type_synonym ('v, 's, 'rows) QueryerContext =
  "Context \<Rightarrow> string \<Rightarrow> 'v list \<Rightarrow> 's \<Rightarrow> ('rows option \<times> error option) \<times> 's"

type_synonym ('v, 's) QueryRowerContext =
  "Context \<Rightarrow> string \<Rightarrow> 'v list \<Rightarrow> 's \<Rightarrow> ('v, 's) RowScanner \<times> 's"

record ('v, 's, 'rows, 'res) RunnerContext =
  QueryContext :: "('v, 's, 'rows) QueryerContext"
  QueryRowContext :: "('v, 's) QueryRowerContext"
  ExecContext :: "('v, 's, 'res) ExecerContext"

section \<open>Dispatch helpers\<close>

text \<open>
  \<^verbatim>\<open>ExecContextWith\<close>, lines 79-86. The results are named: \<^verbatim>\<open>query, args, err := s.ToSql()\<close>
  assigns the result \<^verbatim>\<open>err\<close>, and the bare \<^verbatim>\<open>return\<close> gives the zero \<^verbatim>\<open>res\<close> with it.
\<close>

definition ExecContextWith ::
  "Context \<Rightarrow> ('v, 's, 'res) ExecerContext \<Rightarrow> 'v Sqlizer \<Rightarrow> 's
    \<Rightarrow> ('res option \<times> error option) \<times> 's" where
  "ExecContextWith ctx db s \<sigma> =
     (case ToSql s of (query, args, err) \<Rightarrow>
        if err \<noteq> None then ((None, err), \<sigma>)
        else db ctx query args \<sigma>)"

text \<open>\<^verbatim>\<open>QueryContextWith\<close>, lines 88-95.\<close>

definition QueryContextWith ::
  "Context \<Rightarrow> ('v, 's, 'rows) QueryerContext \<Rightarrow> 'v Sqlizer \<Rightarrow> 's
    \<Rightarrow> ('rows option \<times> error option) \<times> 's" where
  "QueryContextWith ctx db s \<sigma> =
     (case ToSql s of (query, args, err) \<Rightarrow>
        if err \<noteq> None then ((None, err), \<sigma>)
        else db ctx query args \<sigma>)"

text \<open>
  \<^verbatim>\<open>QueryRowContextWith\<close>, lines 97-101: no test of \<^verbatim>\<open>err\<close>; the client is called with
  whatever \<^verbatim>\<open>ToSql\<close> returned and the result is put in a new \<^verbatim>\<open>Row\<close> with \<^verbatim>\<open>err\<close>.
\<close>

definition QueryRowContextWith ::
  "Context \<Rightarrow> ('v, 's) QueryRowerContext \<Rightarrow> 'v Sqlizer \<Rightarrow> 's \<Rightarrow> ('v, 's) RowScanner \<times> 's" where
  "QueryRowContextWith ctx db s \<sigma> =
     (case ToSql s of (query, args, err) \<Rightarrow>
        (case db ctx query args \<sigma> of (rs, \<sigma>') \<Rightarrow> (Row rs err, \<sigma>')))"

section \<open>The standard-client adapter\<close>

text \<open>
  \<^verbatim>\<open>StdSqlCtx\<close>, lines 52-57, with the one method of the embedded \<^verbatim>\<open>StdSql\<close> the source
  calls (\<^verbatim>\<open>QueryRow\<close>). The two single-row methods return a \<^verbatim>\<open>*sql.Row\<close>.
\<close>

record ('v, 's, 'res) StdSqlCtx =
  Std_QueryRow :: "string \<Rightarrow> 'v list \<Rightarrow> 's \<Rightarrow> ('v, 's) sql_Row option \<times> 's"
  Std_QueryContext ::
    "Context \<Rightarrow> string \<Rightarrow> 'v list \<Rightarrow> 's \<Rightarrow> (('v, 's) sql_Rows option \<times> error option) \<times> 's"
  Std_QueryRowContext ::
    "Context \<Rightarrow> string \<Rightarrow> 'v list \<Rightarrow> 's \<Rightarrow> ('v, 's) sql_Row option \<times> 's"
  Std_ExecContext ::
    "Context \<Rightarrow> string \<Rightarrow> 'v list \<Rightarrow> 's \<Rightarrow> ('res option \<times> error option) \<times> 's"

text \<open>
  \<^verbatim>\<open>type stdsqlCtxRunner struct { StdSqlCtx }\<close>, lines 59-61, and its methods, lines 63-77.
  \<^verbatim>\<open>QueryRow\<close> and \<^verbatim>\<open>QueryRowContext\<close> return the client's \<^verbatim>\<open>*sql.Row\<close> as a
  \<^verbatim>\<open>RowScanner\<close>: the pointer, nil or not, inside a non-nil interface value.
\<close>

datatype ('v, 's, 'res) stdsqlCtxRunner = stdsqlCtxRunner "('v, 's, 'res) StdSqlCtx"

fun stdsqlCtxRunner_QueryRow ::
  "('v, 's, 'res) stdsqlCtxRunner \<Rightarrow> string \<Rightarrow> 'v list \<Rightarrow> 's \<Rightarrow> ('v, 's) RowScanner \<times> 's" where
  "stdsqlCtxRunner_QueryRow (stdsqlCtxRunner c) query args \<sigma> =
     (case Std_QueryRow c query args \<sigma> of (row, \<sigma>') \<Rightarrow> (sql_Row_ptr row, \<sigma>'))"

fun stdsqlCtxRunner_QueryRowContext ::
  "('v, 's, 'res) stdsqlCtxRunner \<Rightarrow> ('v, 's) QueryRowerContext" where
  "stdsqlCtxRunner_QueryRowContext (stdsqlCtxRunner c) ctx query args \<sigma> =
     (case Std_QueryRowContext c ctx query args \<sigma> of (row, \<sigma>') \<Rightarrow> (sql_Row_ptr row, \<sigma>'))"

fun stdsqlCtxRunner_QueryContext ::
  "('v, 's, 'res) stdsqlCtxRunner \<Rightarrow> ('v, 's, ('v, 's) StdRowsWrapper) QueryerContext" where
  "stdsqlCtxRunner_QueryContext (stdsqlCtxRunner c) ctx query args \<sigma> =
     (case Std_QueryContext c ctx query args \<sigma> of ((rows, err), \<sigma>') \<Rightarrow>
        if err \<noteq> None then ((None, err), \<sigma>')
        else ((Some (StdRowsWrapper rows), None), \<sigma>'))"

text \<open>\<^verbatim>\<open>ExecContext\<close> is promoted from the embedded \<^verbatim>\<open>StdSqlCtx\<close>.\<close>

fun stdsqlCtxRunner_ExecContext ::
  "('v, 's, 'res) stdsqlCtxRunner \<Rightarrow> ('v, 's, 'res) ExecerContext" where
  "stdsqlCtxRunner_ExecContext (stdsqlCtxRunner c) ctx query args \<sigma> =
     Std_ExecContext c ctx query args \<sigma>"

text \<open>\<^verbatim>\<open>WrapStdSqlCtx\<close>, lines 46-48.\<close>

definition WrapStdSqlCtx ::
  "('v, 's, 'res) StdSqlCtx \<Rightarrow> ('v, 's, ('v, 's) StdRowsWrapper, 'res) RunnerContext" where
  "WrapStdSqlCtx stdSqlCtx =
     \<lparr>QueryContext = stdsqlCtxRunner_QueryContext (stdsqlCtxRunner stdSqlCtx),
      QueryRowContext = stdsqlCtxRunner_QueryRowContext (stdsqlCtxRunner stdSqlCtx),
      ExecContext = stdsqlCtxRunner_ExecContext (stdsqlCtxRunner stdSqlCtx)\<rparr>"

section \<open>The alternate-client adapter\<close>

text \<open>\<^verbatim>\<open>Pgx\<close>, lines 103-107. A \<^verbatim>\<open>pgx.Row\<close> is used as a \<^verbatim>\<open>RowScanner\<close> only.\<close>

record ('v, 's) Pgx =
  Pgx_QueryContext ::
    "Context \<Rightarrow> string \<Rightarrow> 'v list \<Rightarrow> 's \<Rightarrow> (('v, 's) pgx_Rows option \<times> error option) \<times> 's"
  Pgx_Exec :: "Context \<Rightarrow> string \<Rightarrow> 'v list \<Rightarrow> 's \<Rightarrow> (CommandTag \<times> error option) \<times> 's"
  Pgx_QueryRow :: "Context \<Rightarrow> string \<Rightarrow> 'v list \<Rightarrow> 's \<Rightarrow> ('v, 's) RowScanner \<times> 's"

text \<open>\<^verbatim>\<open>type pgxRunner struct { Pgx }\<close>, lines 113-115, and its methods, lines 117-136.\<close>

datatype ('v, 's) pgxRunner = pgxRunner "('v, 's) Pgx"

fun pgxRunner_QueryRowContext :: "('v, 's) pgxRunner \<Rightarrow> ('v, 's) QueryRowerContext" where
  "pgxRunner_QueryRowContext (pgxRunner p) ctx query args \<sigma> = Pgx_QueryRow p ctx query args \<sigma>"

fun pgxRunner_ExecContext ::
  "('v, 's) pgxRunner \<Rightarrow> ('v, 's, commandTagWrapper) ExecerContext" where
  "pgxRunner_ExecContext (pgxRunner p) ctx query args \<sigma> =
     (case Pgx_Exec p ctx query args \<sigma> of ((ct, err), \<sigma>') \<Rightarrow>
        ((Some (commandTagWrapper ct), err), \<sigma>'))"

fun pgxRunner_QueryRow ::
  "('v, 's) pgxRunner \<Rightarrow> string \<Rightarrow> 'v list \<Rightarrow> 's \<Rightarrow> ('v, 's) RowScanner \<times> 's" where
  "pgxRunner_QueryRow (pgxRunner p) query args \<sigma> = Pgx_QueryRow p Background query args \<sigma>"

fun pgxRunner_QueryContext ::
  "('v, 's) pgxRunner \<Rightarrow> ('v, 's, ('v, 's) PgxRowsWrapper) QueryerContext" where
  "pgxRunner_QueryContext (pgxRunner p) ctx query args \<sigma> =
     (case Pgx_QueryContext p ctx query args \<sigma> of ((rows, err), \<sigma>') \<Rightarrow>
        if err \<noteq> None then ((None, err), \<sigma>')
        else ((Some (PgxRowsWrapper rows), None), \<sigma>'))"

text \<open>\<^verbatim>\<open>WrapPgx\<close>, lines 109-111.\<close>

definition WrapPgx ::
  "('v, 's) Pgx \<Rightarrow> ('v, 's, ('v, 's) PgxRowsWrapper, commandTagWrapper) RunnerContext" where
  "WrapPgx p =
     \<lparr>QueryContext = pgxRunner_QueryContext (pgxRunner p),
      QueryRowContext = pgxRunner_QueryRowContext (pgxRunner p),
      ExecContext = pgxRunner_ExecContext (pgxRunner p)\<rparr>"

section \<open>Clients that record their calls\<close>

text \<open>
  Test doubles for the concrete instances below: the state of such a client is the list
  of the calls it has received, in order.
\<close>

type_synonym 'v calls = "(Context \<times> string \<times> 'v list) list"

definition recording_ExecerContext :: "('v, 'v calls, 'res) ExecerContext" where
  "recording_ExecerContext ctx query args \<sigma> = ((None, None), \<sigma> @ [(ctx, query, args)])"

definition recording_QueryerContext :: "('v, 'v calls, 'rows) QueryerContext" where
  "recording_QueryerContext ctx query args \<sigma> = ((None, None), \<sigma> @ [(ctx, query, args)])"

definition recording_QueryRowerContext :: "('v, 'v calls) QueryRowerContext" where
  "recording_QueryRowerContext ctx query args \<sigma> = (nil_RowScanner, \<sigma> @ [(ctx, query, args)])"

text \<open>A \<^verbatim>\<open>Pgx\<close> client whose \<^verbatim>\<open>Exec\<close> answers every call with the given tag and error.\<close>

definition recording_Pgx :: "CommandTag \<Rightarrow> error option \<Rightarrow> ('v, 'v calls) Pgx" where
  "recording_Pgx ct err =
     \<lparr>Pgx_QueryContext = (\<lambda>ctx query args \<sigma>. ((None, None), \<sigma> @ [(ctx, query, args)])),
      Pgx_Exec = (\<lambda>ctx query args \<sigma>. ((ct, err), \<sigma> @ [(ctx, query, args)])),
      Pgx_QueryRow = (\<lambda>ctx query args \<sigma>. (nil_RowScanner, \<sigma> @ [(ctx, query, args)]))\<rparr>"

text \<open>A standard client that passes no cursor, row or result back.\<close>

definition recording_StdSqlCtx :: "('v, 'v calls, 'res) StdSqlCtx" where
  "recording_StdSqlCtx =
     \<lparr>Std_QueryRow = (\<lambda>query args \<sigma>. (None, \<sigma> @ [(Background, query, args)])),
      Std_QueryContext = (\<lambda>ctx query args \<sigma>. ((None, None), \<sigma> @ [(ctx, query, args)])),
      Std_QueryRowContext = (\<lambda>ctx query args \<sigma>. (None, \<sigma> @ [(ctx, query, args)])),
      Std_ExecContext = (\<lambda>ctx query args \<sigma>. ((None, None), \<sigma> @ [(ctx, query, args)]))\<rparr>"

text \<open>
  A native standard cursor over a state that holds the recorded error: \<^verbatim>\<open>Close\<close> fails
  with \<open>e\<close> and records it or not, \<^verbatim>\<open>Err\<close> returns what is recorded.
\<close>

definition closing_sql_Rows :: "error \<Rightarrow> bool \<Rightarrow> ('v, error option) sql_Rows" where
  "closing_sql_Rows e records =
     \<lparr>sql_Close = (\<lambda>\<sigma>. (Some e, if records then Some e else \<sigma>)),
      sql_Err = (\<lambda>\<sigma>. (\<sigma>, \<sigma>)),
      sql_Next = (\<lambda>\<sigma>. (False, \<sigma>)),
      sql_Scan = (\<lambda>dest \<sigma>. ((None, dest), \<sigma>)),
      sql_Columns = (\<lambda>\<sigma>. ((Some [], None), \<sigma>))\<rparr>"

text \<open>A native alternate cursor with a fixed field-description list.\<close>

definition fixed_pgx_Rows :: "FieldDescription list option \<Rightarrow> ('v, unit) pgx_Rows" where
  "fixed_pgx_Rows fds =
     \<lparr>pgx_Close = (\<lambda>\<sigma>. \<sigma>),
      pgx_Err = (\<lambda>\<sigma>. (None, \<sigma>)),
      pgx_Next = (\<lambda>\<sigma>. (False, \<sigma>)),
      pgx_Scan = (\<lambda>dest \<sigma>. ((None, dest), \<sigma>)),
      pgx_FieldDescriptions = (\<lambda>\<sigma>. (fds, \<sigma>))\<rparr>"

section \<open>The column loop\<close>

lemma Columns_loop_inv:
  "length cols = i + length fds \<Longrightarrow> Columns_loop i fds cols = take i cols @ map Name fds"
proof (induction fds arbitrary: i cols)
  case Nil
  then show ?case by simp
next
  case (Cons f fds)
  have len: "length (cols[i := Name f]) = Suc i + length fds"
    using Cons.prems by simp
  have "Columns_loop (Suc i) fds (cols[i := Name f])
          = take (Suc i) (cols[i := Name f]) @ map Name fds"
    by (rule Cons.IH [OF len])
  moreover have "take (Suc i) (cols[i := Name f]) = take i cols @ [Name f]"
    using Cons.prems by (simp add: take_Suc_conv_app_nth)
  ultimately show ?case by simp
qed

lemma Columns_loop_map:
  "Columns_loop 0 fds (replicate (length fds) []) = map Name fds"
  by (simp add: Columns_loop_inv)

section \<open>Dispatch of a statement that fails to build\<close>

text \<open>
  Whatever the client, \<^verbatim>\<open>QueryRowContextWith\<close> returns a non-nil scanner, and when the
  statement failed to build, \<^verbatim>\<open>Scan\<close> of that scanner returns the build error and
  leaves the destinations as they were.
\<close>

lemma QueryRowContextWith_Scan_build_error:
  assumes "ToSql s = (query, args, Some e)"
  shows "fst (QueryRowContextWith ctx db s \<sigma>) \<noteq> nil_RowScanner
       \<and> RowScanner_Scan (fst (QueryRowContextWith ctx db s \<sigma>)) dest \<tau> = Inr ((Some e, dest), \<tau>)"
  using assms by (simp add: QueryRowContextWith_def split: prod.splits)

text \<open>
  But the client is called on every dispatch, with the text and arguments \<^verbatim>\<open>ToSql\<close>
  returned, whether or not it returned an error: the state after the dispatch is the state
  after the client's call.
\<close>

lemma QueryRowContextWith_always_calls:
  assumes "ToSql s = (query, args, err)"
  shows "snd (QueryRowContextWith ctx db s \<sigma>) = snd (db ctx query args \<sigma>)"
  using assms by (simp add: QueryRowContextWith_def split: prod.splits)

text \<open>
  Claim C1 (for a statement whose \<^verbatim>\<open>ToSql\<close> returns a build error,
  \<^verbatim>\<open>QueryRowContextWith\<close> returns a non-nil scanner whose \<^verbatim>\<open>Scan\<close> returns that error,
  and the client's \<^verbatim>\<open>QueryRowContext\<close> is never invoked) does not hold of the code in its
  last part. For the statement whose \<^verbatim>\<open>ToSql\<close> returns \<^verbatim>\<open>("", nil, err)\<close> and a client
  that records its calls, starting with none recorded, the dispatch returns the \<^verbatim>\<open>Row\<close>
  carrying the error, and the client has recorded one call of \<^verbatim>\<open>QueryRowContext\<close>, with
  the empty query text and no arguments.
\<close>

theorem QueryRowContextWith_build_error_reaches_client:
  "QueryRowContextWith Background recording_QueryRowerContext
      \<lparr>ToSql = ([], [], Some (errors_New ''build failed''))\<rparr> ([] :: int calls)
    = (Row nil_RowScanner (Some (errors_New ''build failed'')), [(Background, [], [])])"
  by (simp add: QueryRowContextWith_def recording_QueryRowerContext_def)

text \<open>
  Claim C2: for a statement whose \<^verbatim>\<open>ToSql\<close> returns a build error \<open>e\<close>,
  \<^verbatim>\<open>ExecContextWith\<close> and \<^verbatim>\<open>QueryContextWith\<close> return the nil result (nil cursor) with
  exactly \<open>e\<close>, and the client's method is not invoked: for every client \<open>db\<close>, \<open>qdb\<close> and
  every state, the outcome does not depend on the client and the state is the one before
  the dispatch.
\<close>

theorem build_error_short_circuit:
  assumes "ToSql s = (query, args, Some e)"
  shows "ExecContextWith ctx db s \<sigma> = ((None, Some e), \<sigma>)
       \<and> QueryContextWith ctx qdb s \<sigma> = ((None, Some e), \<sigma>)"
  using assms by (simp add: ExecContextWith_def QueryContextWith_def)

text \<open>With clients that record their calls, nothing is recorded.\<close>

theorem build_error_short_circuit_witness:
  "ToSql \<lparr>ToSql = (''SELECT'', [1::int], Some (errors_New ''build failed''))\<rparr>
      = (''SELECT'', [1], Some (errors_New ''build failed''))
   \<and> ExecContextWith Background (recording_ExecerContext :: (int, int calls, unit) ExecerContext)
        \<lparr>ToSql = (''SELECT'', [1], Some (errors_New ''build failed''))\<rparr> []
      = ((None, Some (errors_New ''build failed'')), [])
   \<and> QueryContextWith Background (recording_QueryerContext :: (int, int calls, unit) QueryerContext)
        \<lparr>ToSql = (''SELECT'', [1], Some (errors_New ''build failed''))\<rparr> []
      = ((None, Some (errors_New ''build failed'')), [])"
  using build_error_short_circuit
    [of "\<lparr>ToSql = (''SELECT'', [1::int], Some (errors_New ''build failed''))\<rparr>"
        "''SELECT''" "[1]" "errors_New ''build failed''" Background
        "recording_ExecerContext :: (int, int calls, unit) ExecerContext" "[]"
        "recording_QueryerContext :: (int, int calls, unit) QueryerContext"]
  by simp

section \<open>Dispatch of a statement that builds\<close>

text \<open>
  Claim C3: for a statement whose \<^verbatim>\<open>ToSql\<close> succeeds with \<open>(query, args)\<close>,
  \<^verbatim>\<open>ExecContextWith\<close> is the client's \<^verbatim>\<open>ExecContext\<close> on the caller's context and exactly
  \<open>query\<close> and \<open>args\<close>, result, error and effect unchanged. Behind the standard adapter
  that is the native \<^verbatim>\<open>ExecContext\<close>; behind the alternate adapter it is the native
  \<^verbatim>\<open>Exec\<close> on the same context, text and arguments, with the error unchanged and the
  command tag wrapped as the result.
\<close>

theorem ExecContextWith_dispatch:
  assumes "ToSql s = (query, args, None)"
  shows "ExecContextWith ctx db s \<sigma> = db ctx query args \<sigma>
       \<and> ExecContextWith ctx (ExecContext (WrapStdSqlCtx c)) s \<sigma>
           = Std_ExecContext c ctx query args \<sigma>
       \<and> ExecContextWith ctx (ExecContext (WrapPgx p)) s \<sigma>
           = (case Pgx_Exec p ctx query args \<sigma> of ((ct, err), \<sigma>') \<Rightarrow>
                ((Some (commandTagWrapper ct), err), \<sigma>'))"
  using assms by (simp add: ExecContextWith_def WrapStdSqlCtx_def WrapPgx_def)

text \<open>Each recording client has recorded the one call, with the statement's pair.\<close>

theorem ExecContextWith_dispatch_witness:
  "ToSql \<lparr>ToSql = (''UPDATE t SET x=1'', [7::int], None)\<rparr> = (''UPDATE t SET x=1'', [7], None)
   \<and> ExecContextWith (Derived 1) (recording_ExecerContext :: (int, int calls, unit) ExecerContext)
        \<lparr>ToSql = (''UPDATE t SET x=1'', [7], None)\<rparr> []
      = ((None, None), [(Derived 1, ''UPDATE t SET x=1'', [7])])
   \<and> ExecContextWith (Derived 1)
        (ExecContext (WrapStdSqlCtx (recording_StdSqlCtx :: (int, int calls, unit) StdSqlCtx)))
        \<lparr>ToSql = (''UPDATE t SET x=1'', [7], None)\<rparr> []
      = ((None, None), [(Derived 1, ''UPDATE t SET x=1'', [7])])
   \<and> ExecContextWith (Derived 1)
        (ExecContext (WrapPgx (recording_Pgx (CommandTag ''UPDATE 3'') None :: (int, int calls) Pgx)))
        \<lparr>ToSql = (''UPDATE t SET x=1'', [7], None)\<rparr> []
      = ((Some (commandTagWrapper (CommandTag ''UPDATE 3'')), None),
         [(Derived 1, ''UPDATE t SET x=1'', [7])])"
  using ExecContextWith_dispatch
    [of "\<lparr>ToSql = (''UPDATE t SET x=1'', [7::int], None)\<rparr>"
        "''UPDATE t SET x=1''" "[7]" "Derived 1"
        "recording_ExecerContext :: (int, int calls, unit) ExecerContext" "[]"
        "recording_StdSqlCtx :: (int, int calls, unit) StdSqlCtx"
        "recording_Pgx (CommandTag ''UPDATE 3'') None"]
  by (simp add: recording_ExecerContext_def recording_StdSqlCtx_def recording_Pgx_def)

section \<open>Execution outcomes of the alternate adapter\<close>

text \<open>
  Claim C4: every Execution Outcome produced by the alternate adapter's \<^verbatim>\<open>ExecContext\<close>
  (there always is one, whatever the native \<^verbatim>\<open>Exec\<close> returned) answers
  \<^verbatim>\<open>LastInsertId\<close> with the error "LastInsertId is not supported by pgx", never with a
  nil error.
\<close>

theorem pgx_LastInsertId_unsupported:
  "\<exists>w. fst (fst (pgxRunner_ExecContext r ctx query args \<sigma>)) = Some w
     \<and> commandTagWrapper_LastInsertId w
         = (0, Some (errors_New ''LastInsertId is not supported by pgx''))
     \<and> snd (commandTagWrapper_LastInsertId w) \<noteq> None"
  by (cases r) (simp split: prod.splits)

text \<open>
  Claim C5: every Execution Outcome produced by the alternate adapter answers
  \<^verbatim>\<open>RowsAffected\<close> with the affected-row count of the command tag the native \<^verbatim>\<open>Exec\<close>
  returned, together with a nil error.
\<close>

theorem pgx_RowsAffected_native:
  "\<exists>w. fst (fst (pgxRunner_ExecContext (pgxRunner p) ctx query args \<sigma>)) = Some w
     \<and> commandTagWrapper_RowsAffected native_RowsAffected w
         = (native_RowsAffected (fst (fst (Pgx_Exec p ctx query args \<sigma>))), None)"
  by (simp split: prod.splits)

text \<open>
  Claim C10, as amended: when the native \<^verbatim>\<open>Exec\<close> returns a non-nil error together with
  a command tag \<open>ct\<close>, the alternate adapter's \<^verbatim>\<open>ExecContext\<close> returns that error
  together with a non-nil Execution Outcome, the wrapper around \<open>ct\<close>, and not a nil
  result. The wrapped tag is the zero-valued one when the native \<^verbatim>\<open>Exec\<close> returned the
  zero-valued one.
\<close>

theorem pgxRunner_ExecContext_error_result:
  assumes "Pgx_Exec p ctx query args \<sigma> = ((ct, Some e), \<sigma>')"
  shows "pgxRunner_ExecContext (pgxRunner p) ctx query args \<sigma>
           = ((Some (commandTagWrapper ct), Some e), \<sigma>')"
  using assms by simp

theorem pgxRunner_ExecContext_error_result_witness:
  "Pgx_Exec (recording_Pgx CommandTag_zero (Some (errors_New ''exec failed'')))
      Background ''UPDATE t SET x=1'' [7::int] []
     = ((CommandTag_zero, Some (errors_New ''exec failed'')),
        [(Background, ''UPDATE t SET x=1'', [7])])
   \<and> pgxRunner_ExecContext (pgxRunner (recording_Pgx CommandTag_zero (Some (errors_New ''exec failed''))))
        Background ''UPDATE t SET x=1'' [7::int] []
     = ((Some (commandTagWrapper CommandTag_zero), Some (errors_New ''exec failed'')),
        [(Background, ''UPDATE t SET x=1'', [7])])"
  using pgxRunner_ExecContext_error_result
    [of "recording_Pgx CommandTag_zero (Some (errors_New ''exec failed''))"
        Background "''UPDATE t SET x=1''" "[7::int]" "[]"
        CommandTag_zero "errors_New ''exec failed''" "[(Background, ''UPDATE t SET x=1'', [7])]"]
  by (simp add: recording_Pgx_def)

text \<open>
  Claim C10 as stated says the outcome wraps the zero-valued command tag. The adapter
  wraps the tag it was given: a client whose \<^verbatim>\<open>Exec\<close> returns the tag \<^verbatim>\<open>UPDATE 3\<close> with an
  error yields an outcome around that tag, which is not the zero-valued one.
\<close>

theorem pgxRunner_ExecContext_error_nonzero_tag:
  "pgxRunner_ExecContext
      (pgxRunner (recording_Pgx (CommandTag ''UPDATE 3'') (Some (errors_New ''exec failed''))))
      Background ''UPDATE t SET x=1; SELECT 1/0'' ([] :: int list) []
    = ((Some (commandTagWrapper (CommandTag ''UPDATE 3'')), Some (errors_New ''exec failed'')),
       [(Background, ''UPDATE t SET x=1; SELECT 1/0'', [])])
   \<and> Some (commandTagWrapper (CommandTag ''UPDATE 3'')) \<noteq> Some (commandTagWrapper CommandTag_zero)"
  by (simp add: recording_Pgx_def CommandTag_zero_def)

section \<open>The non-cancellable single-row query of the alternate adapter\<close>

text \<open>
  Claim C6: for every query text and argument list, \<^verbatim>\<open>QueryRow\<close> of the alternate adapter
  returns, with the same effect on the client, what its cancellable \<^verbatim>\<open>QueryRowContext\<close>
  returns on \<^verbatim>\<open>context.Background()\<close>, which is what the native \<^verbatim>\<open>QueryRow\<close> returns on
  that context.
\<close>

theorem pgxRunner_QueryRow_Background:
  "pgxRunner_QueryRow r query args \<sigma> = pgxRunner_QueryRowContext r Background query args \<sigma>
   \<and> pgxRunner_QueryRow (pgxRunner p) query args \<sigma> = Pgx_QueryRow p Background query args \<sigma>"
  by (cases r) simp

theorem pgxRunner_QueryRow_Background_witness:
  "pgxRunner_QueryRow (pgxRunner (recording_Pgx CommandTag_zero None)) ''SELECT 1'' [7::int] []
     = (nil_RowScanner, [(Background, ''SELECT 1'', [7])])"
  using pgxRunner_QueryRow_Background
    [of "pgxRunner (recording_Pgx CommandTag_zero None)" "''SELECT 1''" "[7::int]" "[]"
        "recording_Pgx CommandTag_zero None"]
  by (simp add: recording_Pgx_def)

section \<open>Cursors\<close>

text \<open>
  Claim C7, as amended: \<^verbatim>\<open>Columns\<close> of an alternate-family cursor whose embedded native
  cursor is not nil returns no column list and the error "no field descriptions" when the
  native field-description list is nil, and otherwise the names of the field descriptions,
  in their order, one for each, with a nil error.
\<close>

theorem PgxRowsWrapper_Columns_names:
  "PgxRowsWrapper_Columns (PgxRowsWrapper (Some rows)) \<sigma> =
     (case pgx_FieldDescriptions rows \<sigma> of
        (None, \<sigma>') \<Rightarrow> Inr ((None, Some (errors_New ''no field descriptions'')), \<sigma>')
      | (Some fds, \<sigma>') \<Rightarrow> Inr ((Some (map Name fds), None), \<sigma>'))"
  by (simp add: Columns_loop_map split: prod.splits option.splits)

theorem PgxRowsWrapper_Columns_names_witness:
  "PgxRowsWrapper_Columns (PgxRowsWrapper (Some (fixed_pgx_Rows None :: (int, unit) pgx_Rows))) ()
     = Inr ((None, Some (errors_New ''no field descriptions'')), ())
   \<and> PgxRowsWrapper_Columns
        (PgxRowsWrapper (Some (fixed_pgx_Rows (Some [\<lparr>Name = ''id''\<rparr>, \<lparr>Name = ''name''\<rparr>])
           :: (int, unit) pgx_Rows))) ()
     = Inr ((Some [''id'', ''name''], None), ())"
  using PgxRowsWrapper_Columns_names [of "fixed_pgx_Rows None :: (int, unit) pgx_Rows" "()"]
    PgxRowsWrapper_Columns_names
      [of "fixed_pgx_Rows (Some [\<lparr>Name = ''id''\<rparr>, \<lparr>Name = ''name''\<rparr>]) :: (int, unit) pgx_Rows" "()"]
  by (simp add: fixed_pgx_Rows_def)

text \<open>
  Claim C7 as stated speaks of every alternate-family cursor. The adapter's
  \<^verbatim>\<open>QueryContext\<close> tests the client's error only: when the client answers with a nil
  cursor and a nil error, the caller gets a wrapper around the nil cursor, with a nil
  error. \<^verbatim>\<open>Columns\<close> of that cursor calls \<^verbatim>\<open>FieldDescriptions\<close> through the nil interface
  and panics: it returns neither the error nor a list of names.
\<close>

theorem PgxRowsWrapper_Columns_nil_cursor_panics:
  "pgxRunner_QueryContext (pgxRunner (recording_Pgx CommandTag_zero None))
      Background ''SELECT id, name FROM t'' ([] :: int list) []
    = ((Some (PgxRowsWrapper None), None), [(Background, ''SELECT id, name FROM t'', [])])
   \<and> PgxRowsWrapper_Columns (PgxRowsWrapper None :: (int, int calls) PgxRowsWrapper)
        [(Background, ''SELECT id, name FROM t'', [])]
    = Inl nil_dereference"
  by (simp add: recording_Pgx_def)

text \<open>
  Claim C9: when the native field-description list is non-nil and empty, \<^verbatim>\<open>Columns\<close>
  returns an empty, non-nil list of names and a nil error; \<^verbatim>\<open>Columns\<close> returns an error
  exactly when the native list is nil.
\<close>

theorem PgxRowsWrapper_Columns_empty:
  "(pgx_FieldDescriptions rows \<sigma> = (Some [], \<sigma>') \<longrightarrow>
      PgxRowsWrapper_Columns (PgxRowsWrapper (Some rows)) \<sigma> = Inr ((Some [], None), \<sigma>'))
   \<and> ((\<exists>cols e \<tau>. PgxRowsWrapper_Columns (PgxRowsWrapper (Some rows)) \<sigma> = Inr ((cols, Some e), \<tau>))
        = (fst (pgx_FieldDescriptions rows \<sigma>) = None))"
  by (auto split: prod.splits option.splits)

theorem PgxRowsWrapper_Columns_empty_witness:
  "pgx_FieldDescriptions (fixed_pgx_Rows (Some []) :: (int, unit) pgx_Rows) () = (Some [], ())
   \<and> PgxRowsWrapper_Columns (PgxRowsWrapper (Some (fixed_pgx_Rows (Some []) :: (int, unit) pgx_Rows))) ()
     = Inr ((Some [], None), ())"
  using PgxRowsWrapper_Columns_empty [of "fixed_pgx_Rows (Some []) :: (int, unit) pgx_Rows" "()" "()"]
  by (simp add: fixed_pgx_Rows_def)

text \<open>
  Claim C8: \<^verbatim>\<open>Close\<close> of a standard-family cursor wrapper runs the native \<^verbatim>\<open>Close\<close> and
  drops the error \<open>e\<close> it returns: the wrapper's \<^verbatim>\<open>Close\<close> has no result, and all that is
  left of the call is the state \<open>\<sigma>'\<close> the native \<^verbatim>\<open>Close\<close> left. A later \<^verbatim>\<open>Err\<close> of the
  wrapper is the native \<^verbatim>\<open>Err\<close> on that state, so \<open>e\<close> is seen again only if the native
  cursor recorded it there.
\<close>

theorem StdRowsWrapper_Close_discards:
  assumes "sql_Close rows \<sigma> = (e, \<sigma>')"
  shows "StdRowsWrapper_Close (StdRowsWrapper (Some rows)) \<sigma> = Inr \<sigma>'
       \<and> StdRowsWrapper_Err (StdRowsWrapper (Some rows)) \<sigma>' = Inr (sql_Err rows \<sigma>')"
  using assms by simp

text \<open>
  Two native cursors whose \<^verbatim>\<open>Close\<close> fails: the first does not record the error, and
  \<^verbatim>\<open>Err\<close> after the wrapper's \<^verbatim>\<open>Close\<close> is nil; the second records it, and \<^verbatim>\<open>Err\<close>
  returns it.
\<close>

theorem StdRowsWrapper_Close_discards_witness:
  "sql_Close (closing_sql_Rows (errors_New ''close failed'') False :: (int, error option) sql_Rows) None
      = (Some (errors_New ''close failed''), None)
   \<and> StdRowsWrapper_Close (StdRowsWrapper (Some (closing_sql_Rows (errors_New ''close failed'') False
        :: (int, error option) sql_Rows))) None = Inr None
   \<and> StdRowsWrapper_Err (StdRowsWrapper (Some (closing_sql_Rows (errors_New ''close failed'') False
        :: (int, error option) sql_Rows))) None = Inr (None, None)
   \<and> sql_Close (closing_sql_Rows (errors_New ''close failed'') True :: (int, error option) sql_Rows) None
      = (Some (errors_New ''close failed''), Some (errors_New ''close failed''))
   \<and> StdRowsWrapper_Close (StdRowsWrapper (Some (closing_sql_Rows (errors_New ''close failed'') True
        :: (int, error option) sql_Rows))) None = Inr (Some (errors_New ''close failed''))
   \<and> StdRowsWrapper_Err (StdRowsWrapper (Some (closing_sql_Rows (errors_New ''close failed'') True
        :: (int, error option) sql_Rows))) (Some (errors_New ''close failed''))
      = Inr (Some (errors_New ''close failed''), Some (errors_New ''close failed''))"
  using StdRowsWrapper_Close_discards
    [of "closing_sql_Rows (errors_New ''close failed'') False :: (int, error option) sql_Rows"
        None "Some (errors_New ''close failed'')" None]
    StdRowsWrapper_Close_discards
    [of "closing_sql_Rows (errors_New ''close failed'') True :: (int, error option) sql_Rows"
        None "Some (errors_New ''close failed'')" "Some (errors_New ''close failed'')"]
  by (simp add: closing_sql_Rows_def)

end
